theory Spec2Isabelle
  imports Complex_Main
begin

section \<open>The auto-reload development server (scripts/dev-server.py)\<close>

text \<open>
  The script supervises one child HTTP server process and restarts it when a watched
  file changes. The model below follows the script's two classes, \<open>ReloadHandler\<close> and
  \<open>DevServer\<close>, its \<open>signal_handler\<close> and its main block. Everything the script does to
  the outside (console output, sleeping, child processes, the observer thread) is a
  field of one explicit \<open>state\<close>; every function takes the state and returns the new one
  together with an \<open>outcome\<close> saying whether it returned or raised.

  Timestamps are the values \<open>time.time()\<close> returns, in seconds. They are modelled as
  real numbers, so the subtraction in the debounce test is exact.
\<close>

subsection \<open>Paths and strings\<close>

text \<open>
  \<open>pathlib\<close> on a POSIX system: the components of a path are the pieces between
  slashes, empty pieces and single dots dropped; \<open>name\<close> is the last component (empty
  when there is none); \<open>suffix\<close> is the part of the name from its last dot on, unless
  that dot is the first or the last character of the name (Python up to 3.13).
\<close>

fun split_sep :: "char \<Rightarrow> string \<Rightarrow> string list" where
  "split_sep sep [] = [[]]"
| "split_sep sep (c # cs) =
     (if c = sep then [] # split_sep sep cs
      else (case split_sep sep cs of [] \<Rightarrow> [[c]] | r # rs \<Rightarrow> (c # r) # rs))"

definition path_name :: "string \<Rightarrow> string" where
  "path_name p =
     (case filter (\<lambda>c. c \<noteq> [] \<and> c \<noteq> ''.'') (split_sep CHR ''/'' p) of
        [] \<Rightarrow> []
      | c # cs \<Rightarrow> last (c # cs))"

definition rfind :: "string \<Rightarrow> char \<Rightarrow> int" where
  \<comment> \<open>\<open>str.rfind\<close>: the index of the last occurrence, -1 when there is none.\<close>
  "rfind s c =
     (if c \<in> set s then int (length s) - 1 - int (length (takeWhile (\<lambda>x. x \<noteq> c) (rev s)))
      else - 1)"

definition suffix :: "string \<Rightarrow> string" where
  "suffix p =
     (let name = path_name p; i = rfind name CHR ''.''
      in if 0 < i \<and> i < int (length name) - 1 then drop (nat i) name else [])"

definition lower_char :: "char \<Rightarrow> char" where
  "lower_char c =
     (case map_of (zip ''ABCDEFGHIJKLMNOPQRSTUVWXYZ'' ''abcdefghijklmnopqrstuvwxyz'') c of
        Some l \<Rightarrow> l
      | None \<Rightarrow> c)"

definition lower :: "string \<Rightarrow> string" where
  \<comment> \<open>\<open>str.lower\<close> on ASCII text.\<close>
  "lower s = map lower_char s"

subsection \<open>Exceptions, console messages and effects\<close>

datatype exn =
    TimeoutExpired
  | OSError string
  | RuntimeError
  | KeyboardInterrupt
  | SystemExit int

fun is_Exception :: "exn \<Rightarrow> bool" where
  \<comment> \<open>Membership in the class \<open>Exception\<close>: what \<open>except Exception\<close> catches.\<close>
  "is_Exception KeyboardInterrupt = False"
| "is_Exception (SystemExit _) = False"
| "is_Exception _ = True"

datatype outcome = Returned | Raised exn

text \<open>The lines the script prints, one constructor for each \<open>print\<close> call.\<close>

datatype msg =
    FileChanged string
  | ServerStarted nat
  | FailedToStart exn
  | ServerStopped
  | Restarting
  | Watching string
  | Banner
  | Rule
  | ServingFrom
  | OpenUrl nat
  | WatchingForChanges
  | PressCtrlC
  | Blank
  | ShuttingDown
  | DevServerStopped
  | ReceivedInterrupt

datatype signal = SIGTERM | SIGKILL | SIGINT

text \<open>
  What the script does to the outside, in the order in which it does it: a line
  printed, a pause, a child created, a signal sent to a child, and a \<open>wait\<close> on a child
  that ended with the child's exit (\<open>True\<close>) or with the timeout (\<open>False\<close>).
\<close>

datatype effect =
    Print msg
  | Sleep real
  | Spawned nat
  | Signalled nat signal
  | Waited nat bool

subsection \<open>Child processes, the observer and the supervisor object\<close>

datatype proc_status = Alive | Dead

text \<open>
  A child process as \<open>subprocess.Popen\<close> created it: whether it still runs, and the
  signals it was sent.
\<close>

record Popen =
  status :: proc_status
  signals :: "signal list"

datatype thread_state = NotStarted | Running | Stopping | Finished

record Observer =
  watches :: "string list"
  thread :: thread_state

record DevServer =
  port :: nat
  server_process :: "nat option"
  observer :: "Observer option"

datatype sigint_disposition = DefaultIntHandler | SignalHandler

text \<open>
  The state: the \<open>DevServer\<close> object, the child processes created so far (numbered in
  the order of creation; \<open>server_process\<close> refers to one by its number), the effects
  performed so far in order, the disposition of SIGINT, and what the environment
  decides: whether the k-th call of \<open>Popen\<close> fails (and with which message), whether
  a child exits within the timeout of \<open>wait\<close>, and which paths exist.
\<close>

record state =
  dev :: DevServer
  procs :: "nat \<Rightarrow> Popen"
  n_procs :: nat
  effects :: "effect list"
  sigint :: sigint_disposition
  popen_calls :: nat
  spawn_error :: "nat \<Rightarrow> string option"
  exits_in_time :: "nat \<Rightarrow> bool"
  path_exists :: "string \<Rightarrow> bool"

definition print :: "msg \<Rightarrow> state \<Rightarrow> state" where
  "print m s = s\<lparr>effects := effects s @ [Print m]\<rparr>"

definition sleep :: "real \<Rightarrow> state \<Rightarrow> state" where
  "sleep d s = s\<lparr>effects := effects s @ [Sleep d]\<rparr>"

subsection \<open>ReloadHandler\<close>

datatype event_type = Moved | Deleted | Created | Modified | Closed | Opened

record FileSystemEvent =
  event_type :: event_type
  is_directory :: bool
  src_path :: string

record ReloadHandler =
  restart_callback :: "state \<Rightarrow> outcome \<times> state"
  last_restart :: real
  debounce_delay :: real

definition ReloadHandler_init :: "(state \<Rightarrow> outcome \<times> state) \<Rightarrow> ReloadHandler" where
  "ReloadHandler_init cb = \<lparr>restart_callback = cb, last_restart = 0, debounce_delay = 1\<rparr>"

definition relevant_extensions :: "string set" where
  "relevant_extensions = {''.html'', ''.js'', ''.css'', ''.json'', ''.md'', ''.ts'', ''.svelte''}"

text \<open>
  \<open>on_modified\<close>; the argument \<open>now\<close> is the value \<open>time.time()\<close> returns in this call.
  The handler object is returned as the call leaves it, also when the callback raises.
\<close>

definition on_modified ::
  "ReloadHandler \<Rightarrow> FileSystemEvent \<Rightarrow> real \<Rightarrow> state \<Rightarrow> ReloadHandler \<times> outcome \<times> state" where
  "on_modified self event now s =
     (if is_directory event then (self, Returned, s)
      else
        let file_path = src_path event in
        if lower (suffix file_path) \<in> relevant_extensions then
          let current_time = now in
          if current_time - last_restart self > debounce_delay self then
            let s1 = print (FileChanged (path_name file_path)) s;
                self1 = self\<lparr>last_restart := current_time\<rparr>;
                (r, s2) = restart_callback self1 s1
            in (self1, r, s2)
          else (self, Returned, s)
        else (self, Returned, s))"

text \<open>
  \<open>ReloadHandler\<close> overrides \<open>on_modified\<close> only. The other event kinds reach the
  methods it inherits from watchdog's \<open>FileSystemEventHandler\<close>, which do nothing.
\<close>

definition dispatch ::
  "ReloadHandler \<Rightarrow> FileSystemEvent \<Rightarrow> real \<Rightarrow> state \<Rightarrow> ReloadHandler \<times> outcome \<times> state" where
  "dispatch self event now s =
     (case event_type event of
        Modified \<Rightarrow> on_modified self event now s
      | _ \<Rightarrow> (self, Returned, s))"

subsection \<open>DevServer\<close>

definition DevServer_init :: "nat \<Rightarrow> DevServer" where
  "DevServer_init p = \<lparr>port = p, server_process = None, observer = None\<rparr>"

text \<open>
  \<open>subprocess.Popen([...])\<close>: the environment decides whether the call raises; when it
  does not, a new running child is created and its number returned.
\<close>

definition Popen_call :: "state \<Rightarrow> (exn + nat) \<times> state" where
  "Popen_call s =
     (let k = popen_calls s; s1 = s\<lparr>popen_calls := k + 1\<rparr>
      in case spawn_error s k of
           Some m \<Rightarrow> (Inl (OSError m), s1)
         | None \<Rightarrow>
             (Inr (n_procs s),
              s1\<lparr>procs := (procs s)(n_procs s := \<lparr>status = Alive, signals = []\<rparr>),
                 n_procs := n_procs s + 1,
                 effects := effects s @ [Spawned (n_procs s)]\<rparr>))"

definition send_signal :: "nat \<Rightarrow> signal \<Rightarrow> state \<Rightarrow> state" where
  \<comment> \<open>\<open>Popen.send_signal\<close>: nothing is sent to a child that has exited.\<close>
  "send_signal h sig s =
     (if status (procs s h) = Alive
      then s\<lparr>procs := (procs s)(h := (procs s h)\<lparr>signals := signals (procs s h) @ [sig]\<rparr>),
             effects := effects s @ [Signalled h sig]\<rparr>
      else s)"

definition terminate :: "nat \<Rightarrow> state \<Rightarrow> state" where
  "terminate h s = send_signal h SIGTERM s"

definition wait :: "nat \<Rightarrow> state \<Rightarrow> outcome \<times> state" where
  \<comment> \<open>\<open>Popen.wait(timeout=5)\<close>: returns once the child has exited, raises when the
      timeout passes first.\<close>
  "wait h s =
     (if status (procs s h) = Dead
      then (Returned, s\<lparr>effects := effects s @ [Waited h True]\<rparr>)
      else if exits_in_time s h
      then (Returned, s\<lparr>procs := (procs s)(h := (procs s h)\<lparr>status := Dead\<rparr>),
                        effects := effects s @ [Waited h True]\<rparr>)
      else (Raised TimeoutExpired, s\<lparr>effects := effects s @ [Waited h False]\<rparr>))"

definition kill :: "nat \<Rightarrow> state \<Rightarrow> state" where
  \<comment> \<open>\<open>Popen.kill\<close> sends SIGKILL and returns; it does not wait for the child to
      be gone.\<close>
  "kill h s = send_signal h SIGKILL s"

definition stop_server :: "state \<Rightarrow> outcome \<times> state" where
  "stop_server s =
     (case server_process (dev s) of
        None \<Rightarrow> (Returned, s)
      | Some h \<Rightarrow>
          (let s1 = terminate h s;
               (r, s2) = wait h s1;
               (r', s3) = (if r = Raised TimeoutExpired then (Returned, kill h s2)
                           else (r, s2))
           in if r' = Returned
              then (Returned,
                    print ServerStopped (s3\<lparr>dev := (dev s3)\<lparr>server_process := None\<rparr>\<rparr>))
              else (r', s3)))"

definition start_server :: "state \<Rightarrow> outcome \<times> state" where
  "start_server s =
     (case (if server_process (dev s) \<noteq> None then stop_server s else (Returned, s)) of
        (Raised e, s1) \<Rightarrow> (Raised e, s1)
      | (Returned, s1) \<Rightarrow>
          (case Popen_call s1 of
             (Inr h, s2) \<Rightarrow>
               (Returned,
                print (ServerStarted (port (dev s2)))
                  (s2\<lparr>dev := (dev s2)\<lparr>server_process := Some h\<rparr>\<rparr>))
           | (Inl e, s2) \<Rightarrow>
               if is_Exception e then (Returned, print (FailedToStart e) s2)
               else (Raised e, s2)))"

definition restart_server :: "state \<Rightarrow> outcome \<times> state" where
  "restart_server s =
     (case stop_server (print Restarting s) of
        (Raised e, s1) \<Rightarrow> (Raised e, s1)
      | (Returned, s1) \<Rightarrow> start_server (sleep (1 / 2) s1))"

text \<open>
  A child may exit at any time, by itself or because of a signal it was sent (the
  environment's step).
\<close>

definition child_exits :: "nat \<Rightarrow> state \<Rightarrow> state" where
  "child_exits h s = s\<lparr>procs := (procs s)(h := (procs s h)\<lparr>status := Dead\<rparr>)\<rparr>"

definition watch_paths :: "string list" where
  "watch_paths = [''.'', ''src'', ''public'', ''css'', ''js'']"

fun schedule_all :: "string list \<Rightarrow> Observer \<Rightarrow> state \<Rightarrow> Observer \<times> state" where
  \<comment> \<open>The \<open>for path in watch_paths\<close> loop.\<close>
  "schedule_all [] ob s = (ob, s)"
| "schedule_all (p # ps) ob s =
     (if path_exists s p
      then schedule_all ps (ob\<lparr>watches := watches ob @ [p]\<rparr>) (print (Watching p) s)
      else schedule_all ps ob s)"

text \<open>
  \<open>start_file_watcher\<close> creates the handler and the observer, schedules the watch roots
  that exist and starts the observer's thread. The handler lives in the observer's
  thread; the model returns it beside the state.
\<close>

definition start_file_watcher :: "state \<Rightarrow> ReloadHandler \<times> state" where
  "start_file_watcher s =
     (let event_handler = ReloadHandler_init restart_server;
          (ob, s1) = schedule_all watch_paths \<lparr>watches = [], thread = NotStarted\<rparr> s
      in (event_handler, s1\<lparr>dev := (dev s1)\<lparr>observer := Some (ob\<lparr>thread := Running\<rparr>)\<rparr>\<rparr>))"

definition observer_stop :: "Observer \<Rightarrow> Observer" where
  \<comment> \<open>\<open>Observer.stop\<close> asks the thread to finish.\<close>
  "observer_stop ob = (if thread ob = Running then ob\<lparr>thread := Stopping\<rparr> else ob)"

definition observer_join :: "Observer \<Rightarrow> (outcome \<times> Observer) option" where
  \<comment> \<open>\<open>Thread.join\<close>: returns when the thread has finished; \<open>None\<close> when it never would.\<close>
  "observer_join ob =
     (case thread ob of
        NotStarted \<Rightarrow> Some (Raised RuntimeError, ob)
      | Running \<Rightarrow> None
      | Stopping \<Rightarrow> Some (Returned, ob\<lparr>thread := Finished\<rparr>)
      | Finished \<Rightarrow> Some (Returned, ob))"

definition signal_handler :: "state \<Rightarrow> outcome \<times> state" where
  \<comment> \<open>\<open>sys.exit(0)\<close> raises \<open>SystemExit\<close>.\<close>
  "signal_handler s = (Raised (SystemExit 0), print ReceivedInterrupt s)"

definition deliver_sigint :: "state \<Rightarrow> outcome \<times> state" where
  \<comment> \<open>SIGINT reaches the main thread: Python's default handler raises
      \<open>KeyboardInterrupt\<close>, an installed one is called.\<close>
  "deliver_sigint s =
     (case sigint s of
        DefaultIntHandler \<Rightarrow> (Raised KeyboardInterrupt, s)
      | SignalHandler \<Rightarrow> signal_handler s)"

text \<open>
  What happens while the main thread sleeps in its loop: nothing, an interrupt signal,
  or a file event (with the clock's reading) delivered to the handler on the observer's
  thread. An exception the handler raises there ends that thread, not the main one.
\<close>

datatype tick = Quiet | Interrupt | FileEvent FileSystemEvent real

definition observer_running :: "state \<Rightarrow> bool" where
  "observer_running s =
     (case observer (dev s) of None \<Rightarrow> False | Some ob \<Rightarrow> thread ob = Running)"

definition watcher_thread ::
  "ReloadHandler \<Rightarrow> FileSystemEvent \<Rightarrow> real \<Rightarrow> state \<Rightarrow> ReloadHandler \<times> state" where
  "watcher_thread h ev now s =
     (if observer_running s then
        (case dispatch h ev now s of
           (h', Returned, s') \<Rightarrow> (h', s')
         | (h', Raised e, s') \<Rightarrow>
             (h', s'\<lparr>dev := (dev s')\<lparr>observer :=
                        map_option (\<lambda>ob. ob\<lparr>thread := Finished\<rparr>) (observer (dev s'))\<rparr>\<rparr>))
      else (h, s))"

text \<open>
  The loop \<open>while True: time.sleep(1)\<close> ends only by an exception. The list is what
  happens during the successive sleeps; \<open>None\<close> says the loop is still running when
  the list is used up.
\<close>

fun idle_loop :: "tick list \<Rightarrow> ReloadHandler \<Rightarrow> state \<Rightarrow> (exn \<times> state) option" where
  "idle_loop [] h s = None"
| "idle_loop (Quiet # ts) h s = idle_loop ts h (sleep 1 s)"
| "idle_loop (Interrupt # ts) h s =
     (case deliver_sigint s of
        (Raised e, s') \<Rightarrow> Some (e, s')
      | (Returned, s') \<Rightarrow> idle_loop ts h s')"
| "idle_loop (FileEvent ev now # ts) h s =
     (let (h', s') = watcher_thread h ev now s in idle_loop ts h' s')"

definition cleanup :: "state \<Rightarrow> (outcome \<times> state) option" where
  \<comment> \<open>The lines of \<open>run\<close> after the loop.\<close>
  "cleanup s =
     (let joined =
            (case observer (dev s) of
               None \<Rightarrow> Some (Returned, s)
             | Some ob \<Rightarrow>
                 map_option (\<lambda>(r, ob'). (r, s\<lparr>dev := (dev s)\<lparr>observer := Some ob'\<rparr>\<rparr>))
                   (observer_join (observer_stop ob)))
      in case joined of
           None \<Rightarrow> None
         | Some (Raised e, s1) \<Rightarrow> Some (Raised e, s1)
         | Some (Returned, s1) \<Rightarrow>
             (case stop_server s1 of
                (Raised e, s2) \<Rightarrow> Some (Raised e, s2)
              | (Returned, s2) \<Rightarrow> Some (Returned, print DevServerStopped s2)))"

definition run :: "tick list \<Rightarrow> state \<Rightarrow> (outcome \<times> state) option" where
  "run ts s =
     (case start_server (print Rule (print Banner s)) of
        (Raised e, s1) \<Rightarrow> Some (Raised e, s1)
      | (Returned, s1) \<Rightarrow>
          (let (h, s2) = start_file_watcher s1;
               s3 = print Blank (print PressCtrlC (print WatchingForChanges
                      (print (OpenUrl (port (dev s2))) (print ServingFrom s2))))
           in case idle_loop ts h s3 of
                None \<Rightarrow> None
              | Some (KeyboardInterrupt, s4) \<Rightarrow> cleanup (print ShuttingDown s4)
              | Some (e, s4) \<Rightarrow> Some (Raised e, s4)))"

definition main :: "tick list \<Rightarrow> state \<Rightarrow> (outcome \<times> state) option" where
  \<comment> \<open>The main block: install the handler, create the server object, run it.\<close>
  "main ts s = run ts (s\<lparr>sigint := SignalHandler, dev := DevServer_init 8081\<rparr>)"

text \<open>The state in which the script starts, for a given environment.\<close>

definition boot ::
  "(nat \<Rightarrow> string option) \<Rightarrow> (nat \<Rightarrow> bool) \<Rightarrow> (string \<Rightarrow> bool) \<Rightarrow> state" where
  "boot spawn_err exits ex =
     \<lparr>dev = DevServer_init 8080, procs = (\<lambda>_. \<lparr>status = Dead, signals = []\<rparr>), n_procs = 0,
      effects = [], sigint = DefaultIntHandler, popen_calls = 0, spawn_error = spawn_err,
      exits_in_time = exits, path_exists = ex\<rparr>"

subsection \<open>Reachable states and the ownership invariant\<close>

text \<open>
  The states the supervisor can be in: it starts with no child and no handle; then
  \<open>start_server\<close>, \<open>stop_server\<close> and \<open>restart_server\<close> are called in any order, a
  child may exit by itself, and the rest of the script prints, sleeps and sets the
  observer.
\<close>

inductive reachable :: "state \<Rightarrow> bool" where
  initial: "server_process (dev s) = None \<Longrightarrow> n_procs s = 0 \<Longrightarrow> reachable s"
| start: "reachable s \<Longrightarrow> reachable (snd (start_server s))"
| stop: "reachable s \<Longrightarrow> reachable (snd (stop_server s))"
| restart: "reachable s \<Longrightarrow> reachable (snd (restart_server s))"
| exits: "reachable s \<Longrightarrow> reachable (child_exits h s)"
| prints: "reachable s \<Longrightarrow> reachable (print m s)"
| sleeps: "reachable s \<Longrightarrow> reachable (sleep d s)"
| watcher: "reachable s \<Longrightarrow> reachable (s\<lparr>dev := (dev s)\<lparr>observer := ob\<rparr>\<rparr>)"

text \<open>
  A child is stopped when it has exited or has been sent SIGKILL. The invariant behind
  the single-process property: every child that is not the one \<open>server_process\<close>
  refers to is stopped, and \<open>server_process\<close> refers to a child that was created.
\<close>

definition stopped :: "Popen \<Rightarrow> bool" where
  "stopped p \<longleftrightarrow> status p = Dead \<or> SIGKILL \<in> set (signals p)"

definition owned :: "state \<Rightarrow> bool" where
  "owned s \<longleftrightarrow>
     (\<forall>h < n_procs s. server_process (dev s) \<noteq> Some h \<longrightarrow> stopped (procs s h))
     \<and> (case server_process (dev s) of None \<Rightarrow> True | Some h \<Rightarrow> h < n_procs s)"

text \<open>
  The order of the effects. \<open>monitor\<close> reads a list of effects from the left and keeps
  the child that was created and has not yet been seen to exit (by a \<open>wait\<close> that
  returned) nor been sent SIGKILL. It fails (\<open>None\<close>) when a child is created while
  there still is such a child; otherwise it gives the child left at the end.
\<close>

fun monitor_step :: "nat option option \<Rightarrow> effect \<Rightarrow> nat option option" where
  "monitor_step None e = None"
| "monitor_step (Some cur) (Spawned h) = (if cur = None then Some (Some h) else None)"
| "monitor_step (Some cur) (Waited h True) = Some (if cur = Some h then None else cur)"
| "monitor_step (Some cur) (Signalled h SIGKILL) = Some (if cur = Some h then None else cur)"
| "monitor_step (Some cur) e = Some cur"

definition monitor :: "nat option \<Rightarrow> effect list \<Rightarrow> nat option option" where
  "monitor cur es = foldl monitor_step (Some cur) es"

section \<open>Properties\<close>

subsection \<open>Facts about the supervisor's operations\<close>

lemmas path_defs = lower_def suffix_def path_name_def rfind_def lower_char_def

lemmas proc_defs = terminate_def send_signal_def wait_def kill_def print_def sleep_def

lemmas run_defs = main_def run_def boot_def DevServer_init_def start_server_def stop_server_def
  Popen_call_def start_file_watcher_def watch_paths_def ReloadHandler_init_def
  deliver_sigint_def signal_handler_def cleanup_def observer_stop_def observer_join_def
  restart_server_def watcher_thread_def observer_running_def dispatch_def on_modified_def

lemma lower_relevant: "x \<in> relevant_extensions \<Longrightarrow> lower x = x"
  by (auto simp: relevant_extensions_def lower_def lower_char_def)

lemma stop_server_None: "server_process (dev s) = None \<Longrightarrow> stop_server s = (Returned, s)"
  by (simp add: stop_server_def)

lemma stop_server_returns: "fst (stop_server s) = Returned"
  by (simp add: stop_server_def proc_defs Let_def split: option.splits)

lemma stop_server_clears: "server_process (dev (snd (stop_server s))) = None"
  by (simp add: stop_server_def proc_defs Let_def split: option.splits)

lemma stop_server_env:
  "n_procs (snd (stop_server s)) = n_procs s"
  "popen_calls (snd (stop_server s)) = popen_calls s"
  "spawn_error (snd (stop_server s)) = spawn_error s"
  "exits_in_time (snd (stop_server s)) = exits_in_time s"
  "port (dev (snd (stop_server s))) = port (dev s)"
  by (simp_all add: stop_server_def proc_defs Let_def split: option.splits)

lemma not_Alive: "x \<noteq> Alive \<longleftrightarrow> x = Dead"
  by (cases x) simp_all

lemma stop_server_other:
  "server_process (dev s) \<noteq> Some h \<Longrightarrow> procs (snd (stop_server s)) h = procs s h"
  by (simp add: stop_server_def proc_defs Let_def split: option.splits)

lemma stop_server_held:
  assumes "server_process (dev s) = Some h"
  shows "procs (snd (stop_server s)) h =
     (if status (procs s h) = Dead then procs s h
      else if exits_in_time s h
      then \<lparr>status = Dead, signals = signals (procs s h) @ [SIGTERM]\<rparr>
      else \<lparr>status = Alive, signals = signals (procs s h) @ [SIGTERM, SIGKILL]\<rparr>)"
    and "effects (snd (stop_server s)) = effects s @
     (if status (procs s h) = Dead then [Waited h True, Print ServerStopped]
      else if exits_in_time s h
      then [Signalled h SIGTERM, Waited h True, Print ServerStopped]
      else [Signalled h SIGTERM, Waited h False, Signalled h SIGKILL, Print ServerStopped])"
  using assms by (simp_all add: stop_server_def proc_defs Let_def not_Alive)

lemma stop_server_stopped:
  "server_process (dev s) = Some h \<Longrightarrow> stopped (procs (snd (stop_server s)) h)"
  by (simp add: stop_server_held stopped_def)

lemma start_server_stop: "start_server s = start_server (snd (stop_server s))"
proof (cases "server_process (dev s)")
  case None
  then show ?thesis by (simp add: stop_server_None)
next
  case (Some h)
  obtain r s1 where st: "stop_server s = (r, s1)" by (cases "stop_server s")
  with stop_server_returns [of s] stop_server_clears [of s]
  have "r = Returned" "server_process (dev s1) = None" by simp_all
  with Some st show ?thesis by (simp add: start_server_def)
qed

lemma start_server_stopped:
  assumes "server_process (dev s) = None"
  shows "start_server s =
     (case spawn_error s (popen_calls s) of
        Some m \<Rightarrow> (Returned, print (FailedToStart (OSError m)) (s\<lparr>popen_calls := popen_calls s + 1\<rparr>))
      | None \<Rightarrow>
          (Returned,
           print (ServerStarted (port (dev s)))
             (s\<lparr>popen_calls := popen_calls s + 1,
                procs := (procs s)(n_procs s := \<lparr>status = Alive, signals = []\<rparr>),
                n_procs := n_procs s + 1,
                effects := effects s @ [Spawned (n_procs s)],
                dev := (dev s)\<lparr>server_process := Some (n_procs s)\<rparr>\<rparr>)))"
  using assms by (simp add: start_server_def Popen_call_def Let_def split: option.splits)

lemma start_server_returns: "fst (start_server s) = Returned"
  by (subst start_server_stop)
     (simp add: start_server_stopped stop_server_clears split: option.splits)

lemma restart_server_eq:
  "restart_server s = start_server (sleep (1 / 2) (snd (stop_server (print Restarting s))))"
  using stop_server_returns [of "print Restarting s"]
  by (cases "stop_server (print Restarting s)") (simp add: restart_server_def)

lemma restart_server_returns: "fst (restart_server s) = Returned"
  by (simp add: restart_server_eq start_server_returns)

subsection \<open>The invariant holds in every reachable state\<close>

lemma stopped_after_stop:
  assumes "owned s" and "h < n_procs s"
  shows "stopped (procs (snd (stop_server s)) h)"
proof (cases "server_process (dev s) = Some h")
  case True
  then show ?thesis by (rule stop_server_stopped)
next
  case False
  with assms show ?thesis unfolding owned_def by (simp add: stop_server_other)
qed

lemma owned_stop: "owned s \<Longrightarrow> owned (snd (stop_server s))"
  unfolding owned_def [of "snd (stop_server s)"]
  by (simp add: stop_server_clears stop_server_env(1) stopped_after_stop)

lemma owned_start_stopped:
  assumes "owned s" and "server_process (dev s) = None"
  shows "owned (snd (start_server s))"
    and "h < n_procs s \<Longrightarrow> stopped (procs (snd (start_server s)) h)"
  using assms unfolding owned_def
  by (simp_all add: start_server_stopped print_def less_Suc_eq split: option.splits)

lemma owned_start: "owned s \<Longrightarrow> owned (snd (start_server s))"
  by (subst start_server_stop) (simp add: owned_start_stopped owned_stop stop_server_clears)

lemma owned_print: "owned (print m s) = owned s"
  by (simp add: owned_def print_def split: option.splits)

lemma owned_sleep: "owned (sleep d s) = owned s"
  by (simp add: owned_def sleep_def split: option.splits)

lemma owned_restart: "owned s \<Longrightarrow> owned (snd (restart_server s))"
  by (simp add: restart_server_eq owned_start owned_sleep owned_stop owned_print)

lemma owned_exits: "owned s \<Longrightarrow> owned (child_exits h s)"
  unfolding owned_def child_exits_def by (simp add: stopped_def split: option.splits)

lemma owned_watcher: "owned s \<Longrightarrow> owned (s\<lparr>dev := (dev s)\<lparr>observer := ob\<rparr>\<rparr>)"
  unfolding owned_def by (simp split: option.splits)

lemma owned_initial: "server_process (dev s) = None \<Longrightarrow> n_procs s = 0 \<Longrightarrow> owned s"
  unfolding owned_def by (simp split: option.splits)

lemma reachable_owned: "reachable s \<Longrightarrow> owned s"
  by (induction rule: reachable.induct)
     (simp_all add: owned_initial owned_start owned_stop owned_restart owned_print owned_sleep
        owned_exits owned_watcher)

lemma stopped_after_start:
  assumes "owned s" and "h < n_procs s"
  shows "stopped (procs (snd (start_server s)) h)"
proof -
  have "h < n_procs (snd (stop_server s))" using assms(2) by (simp add: stop_server_env)
  with owned_start_stopped(2) [OF owned_stop [OF assms(1)] stop_server_clears]
  show ?thesis by (subst start_server_stop) simp
qed

lemma stopped_after_restart:
  assumes "owned s" and "h < n_procs s"
  shows "stopped (procs (snd (restart_server s)) h)"
proof -
  let ?s1 = "sleep (1 / 2) (snd (stop_server (print Restarting s)))"
  have "owned ?s1" using assms(1) by (simp add: owned_sleep owned_stop owned_print)
  moreover have "server_process (dev ?s1) = None" by (simp add: sleep_def stop_server_clears)
  moreover have "h < n_procs ?s1"
    using assms(2) by (simp add: sleep_def stop_server_env) (simp add: print_def)
  ultimately show ?thesis
    by (simp add: restart_server_eq owned_start_stopped(2))
qed

subsection \<open>The order of the effects of one call\<close>

lemma monitor_append:
  "monitor c es = Some c' \<Longrightarrow> monitor c (es @ es') = monitor c' es'"
  by (simp add: monitor_def)

lemma monitor_stop:
  "\<exists>es. effects (snd (stop_server s)) = effects s @ es
      \<and> monitor (server_process (dev s)) es = Some None"
proof (cases "server_process (dev s)")
  case None
  then show ?thesis by (simp add: stop_server_None monitor_def)
next
  case (Some h)
  then show ?thesis by (simp add: stop_server_held(2) monitor_def)
qed

lemma monitor_start_stopped:
  assumes "server_process (dev s) = None"
  shows "\<exists>es. effects (snd (start_server s)) = effects s @ es
      \<and> monitor None es = Some (server_process (dev (snd (start_server s))))"
  using assms
  by (simp add: start_server_stopped print_def monitor_def split: option.splits)

lemma monitor_start:
  "\<exists>es. effects (snd (start_server s)) = effects s @ es
      \<and> monitor (server_process (dev s)) es = Some (server_process (dev (snd (start_server s))))"
proof -
  let ?s1 = "snd (stop_server s)"
  obtain es1 where 1: "effects ?s1 = effects s @ es1"
    "monitor (server_process (dev s)) es1 = Some None"
    using monitor_stop [of s] by blast
  obtain es2 where 2: "effects (snd (start_server ?s1)) = effects ?s1 @ es2"
    "monitor None es2 = Some (server_process (dev (snd (start_server ?s1))))"
    using monitor_start_stopped [OF stop_server_clears, of s] by blast
  have eq: "start_server s = start_server ?s1" by (rule start_server_stop)
  have "effects (snd (start_server s)) = effects s @ (es1 @ es2)"
    using 1(1) 2(1) by (simp add: eq [symmetric])
  moreover have "monitor (server_process (dev s)) (es1 @ es2)
      = Some (server_process (dev (snd (start_server s))))"
    using monitor_append [OF 1(2), of es2] 2(2) by (simp add: eq [symmetric])
  ultimately show ?thesis by blast
qed

lemma monitor_restart:
  "\<exists>es. effects (snd (restart_server s)) = effects s @ es
      \<and> monitor (server_process (dev s)) es
          = Some (server_process (dev (snd (restart_server s))))"
proof -
  let ?s0 = "print Restarting s"
  let ?s1 = "snd (stop_server ?s0)"
  let ?s2 = "sleep (1 / 2) ?s1"
  have h0: "server_process (dev ?s0) = server_process (dev s)" by (simp add: print_def)
  obtain es1 where 1: "effects ?s1 = effects ?s0 @ es1"
    "monitor (server_process (dev s)) es1 = Some None"
    using monitor_stop [of ?s0] h0 by auto
  have none: "server_process (dev ?s2) = None" by (simp add: sleep_def stop_server_clears)
  obtain es2 where 2: "effects (snd (start_server ?s2)) = effects ?s2 @ es2"
    "monitor None es2 = Some (server_process (dev (snd (start_server ?s2))))"
    using monitor_start_stopped [OF none] by blast
  have a: "monitor (server_process (dev s)) (Print Restarting # es1 @ [Sleep (1 / 2)]) = Some None"
    using 1(2) by (simp add: monitor_def)
  have "effects (snd (restart_server s))
      = effects s @ ((Print Restarting # es1 @ [Sleep (1 / 2)]) @ es2)"
    using 1(1) 2(1) by (simp add: restart_server_eq sleep_def) (simp add: print_def)
  moreover have "monitor (server_process (dev s)) ((Print Restarting # es1 @ [Sleep (1 / 2)]) @ es2)
      = Some (server_process (dev (snd (restart_server s))))"
    using monitor_append [OF a, of es2] 2(2) by (simp add: restart_server_eq)
  ultimately show ?thesis by blast
qed

subsection \<open>The interrupt handler and the main loop\<close>

lemma stop_server_sigint: "sigint (snd (stop_server s)) = sigint s"
  by (simp add: stop_server_def proc_defs Let_def split: option.splits)

lemma start_server_sigint: "sigint (snd (start_server s)) = sigint s"
  by (subst start_server_stop)
     (simp add: start_server_stopped stop_server_clears stop_server_sigint print_def
        split: option.splits)

lemma restart_server_sigint: "sigint (snd (restart_server s)) = sigint s"
  by (simp add: restart_server_eq start_server_sigint stop_server_sigint sleep_def)
     (simp add: print_def)

lemma on_modified_sigint:
  assumes "restart_callback h = restart_server"
  shows "restart_callback (fst (on_modified h ev now s)) = restart_server"
    and "sigint (snd (snd (on_modified h ev now s))) = sigint s"
proof -
  have "sigint (snd (restart_server (print m s))) = sigint s" for m
    by (simp add: restart_server_sigint) (simp add: print_def)
  with assms show "restart_callback (fst (on_modified h ev now s)) = restart_server"
    and "sigint (snd (snd (on_modified h ev now s))) = sigint s"
    by (simp_all add: on_modified_def Let_def split: prod.splits)
qed

lemma dispatch_sigint:
  assumes "restart_callback h = restart_server"
  shows "restart_callback (fst (dispatch h ev now s)) = restart_server"
    and "sigint (snd (snd (dispatch h ev now s))) = sigint s"
  using assms on_modified_sigint [OF assms, of ev now s]
  by (simp_all add: dispatch_def split: event_type.splits)

lemma watcher_thread_sigint:
  assumes "restart_callback h = restart_server"
  shows "restart_callback (fst (watcher_thread h ev now s)) = restart_server"
    and "sigint (snd (watcher_thread h ev now s)) = sigint s"
  using assms dispatch_sigint [OF assms, of ev now s]
  by (auto simp: watcher_thread_def split: prod.splits outcome.splits)

lemma idle_loop_exit:
  assumes "sigint s = SignalHandler" and "restart_callback h = restart_server"
    and "idle_loop ts h s = Some (e, s')"
  shows "e = SystemExit 0"
  using assms
proof (induction ts h s rule: idle_loop.induct)
  case (1 h s)
  then show ?case by simp
next
  case (2 ts h s)
  then show ?case by (simp add: sleep_def)
next
  case (3 ts h s)
  then show ?case by (simp add: deliver_sigint_def signal_handler_def)
next
  case (4 ev now ts h s)
  obtain h1 s1 where w: "watcher_thread h ev now s = (h1, s1)"
    by (cases "watcher_thread h ev now s")
  with watcher_thread_sigint [OF "4.prems"(2), of ev now s] "4.prems"(1)
  have "sigint s1 = SignalHandler" "restart_callback h1 = restart_server" by simp_all
  with "4.IH" [of "(h1, s1)" h1 s1] w "4.prems"(3) show ?case by simp
qed

lemma schedule_all_sigint: "sigint (snd (schedule_all ps ob s)) = sigint s"
  by (induction ps ob s rule: schedule_all.induct) (simp_all add: print_def)

lemma start_file_watcher_sigint:
  "sigint (snd (start_file_watcher s)) = sigint s"
  "restart_callback (fst (start_file_watcher s)) = restart_server"
  using schedule_all_sigint [of watch_paths "\<lparr>watches = [], thread = NotStarted\<rparr>" s]
  by (cases "schedule_all watch_paths \<lparr>watches = [], thread = NotStarted\<rparr> s";
      simp add: start_file_watcher_def ReloadHandler_init_def)+

text \<open>
  With the script's handler installed, the loop of \<open>run\<close> is never left by
  \<open>KeyboardInterrupt\<close>: whenever \<open>main\<close> ends, it ends by \<open>SystemExit\<close>, and the lines of
  \<open>run\<close> after the loop are not executed.
\<close>

lemma main_exits_by_SystemExit:
  assumes "main ts s = Some (r, s')"
  shows "r = Raised (SystemExit 0)"
proof -
  let ?s0 = "print Rule (print Banner (s\<lparr>sigint := SignalHandler, dev := DevServer_init 8081\<rparr>))"
  obtain s1 where s1: "start_server ?s0 = (Returned, s1)"
    using start_server_returns [of ?s0] by (cases "start_server ?s0") simp
  have sig1: "sigint s1 = SignalHandler"
    using start_server_sigint [of ?s0] s1 by (simp add: print_def)
  obtain h s2 where w: "start_file_watcher s1 = (h, s2)" by (cases "start_file_watcher s1")
  with start_file_watcher_sigint [of s1] sig1
  have hs: "restart_callback h = restart_server" "sigint s2 = SignalHandler" by simp_all
  let ?s3 = "print Blank (print PressCtrlC (print WatchingForChanges
               (print (OpenUrl (port (dev s2))) (print ServingFrom s2))))"
  have sig3: "sigint ?s3 = SignalHandler" using hs(2) by (simp add: print_def)
  have eq: "main ts s =
      (case idle_loop ts h ?s3 of
         None \<Rightarrow> None
       | Some (KeyboardInterrupt, s4) \<Rightarrow> cleanup (print ShuttingDown s4)
       | Some (e, s4) \<Rightarrow> Some (Raised e, s4))"
    by (simp add: main_def run_def s1 w)
  show ?thesis
  proof (cases "idle_loop ts h ?s3")
    case None
    with eq assms show ?thesis by simp
  next
    case (Some p)
    obtain e s4 where p: "p = (e, s4)" by (cases p)
    with Some idle_loop_exit [OF sig3 hs(1)] have "e = SystemExit 0" by simp
    with eq Some p assms show ?thesis by simp
  qed
qed

text \<open>
  Without the script's handler (Python's default disposition of SIGINT), the same
  interrupt is caught in \<open>run\<close>, which then stops and joins the observer and stops the
  child.
\<close>

lemma keyboard_interrupt_cleans_up:
  "\<exists>s'. run [Quiet, Interrupt] (boot (\<lambda>_. None) (\<lambda>_. True) (\<lambda>_. True)) =
           Some (Returned, s')
       \<and> server_process (dev s') = None
       \<and> procs s' 0 = \<lparr>status = Dead, signals = [SIGTERM]\<rparr>
       \<and> map_option thread (observer (dev s')) = Some Finished
       \<and> last (effects s') = Print DevServerStopped"
  by (simp add: run_defs proc_defs Let_def)

subsection \<open>The claims\<close>

text \<open>
  C1. After an interrupt signal the watcher thread is to be stopped and joined and the
  child server stopped before the program exits. The script does not do this: its own
  handler turns the signal into \<open>SystemExit\<close>, which \<open>run\<close> does not catch. Evaluated
  on a run where the signal arrives during the second sleep: the program ends by
  \<open>SystemExit 0\<close> with the child still alive and never signalled, the handle still
  set, the observer's thread still running, and no stop message printed.
\<close>

theorem interrupt_skips_cleanup:
  "\<exists>s'. main [Quiet, Interrupt] (boot (\<lambda>_. None) (\<lambda>_. True) (\<lambda>_. True)) =
           Some (Raised (SystemExit 0), s')
       \<and> server_process (dev s') = Some 0
       \<and> n_procs s' = 1
       \<and> procs s' 0 = \<lparr>status = Alive, signals = []\<rparr>
       \<and> map_option thread (observer (dev s')) = Some Running
       \<and> last (effects s') = Print ReceivedInterrupt
       \<and> Print ServerStopped \<notin> set (effects s')"
  by (simp add: run_defs proc_defs Let_def)

text \<open>
  C2, as amended. \<open>restart_server\<close> always returns. When the spawn succeeds, the
  supervisor ends RUNNING: the handle refers to a child created by this call (its number
  is the first unused one, so it is none of the children that existed before), running
  and not yet signalled, and in a reachable state it differs from the handle held
  before the restart. When the spawn fails, the supervisor ends STOPPED, with no handle
  and no new child.
\<close>

theorem restart_server_result:
  "(spawn_error s (popen_calls s) = None \<longrightarrow>
      (\<exists>s'. restart_server s = (Returned, s')
         \<and> server_process (dev s') = Some (n_procs s)
         \<and> n_procs s' = n_procs s + 1
         \<and> status (procs s' (n_procs s)) = Alive
         \<and> signals (procs s' (n_procs s)) = []
         \<and> (\<forall>h < n_procs s. server_process (dev s') \<noteq> Some h)
         \<and> (reachable s \<longrightarrow> server_process (dev s') \<noteq> server_process (dev s))))
   \<and> (\<forall>m. spawn_error s (popen_calls s) = Some m \<longrightarrow>
      (\<exists>s'. restart_server s = (Returned, s') \<and> server_process (dev s') = None
         \<and> n_procs s' = n_procs s))"
proof -
  let ?s1 = "sleep (1 / 2) (snd (stop_server (print Restarting s)))"
  have none: "server_process (dev ?s1) = None"
    by (simp add: sleep_def stop_server_clears)
  have env: "n_procs ?s1 = n_procs s" "popen_calls ?s1 = popen_calls s"
    "spawn_error ?s1 = spawn_error s"
    by (simp_all add: sleep_def stop_server_env) (simp_all add: print_def)
  have ok: "spawn_error s (popen_calls s) = None \<Longrightarrow>
      start_server ?s1 =
        (Returned,
         print (ServerStarted (port (dev ?s1)))
           (?s1\<lparr>popen_calls := popen_calls ?s1 + 1,
                procs := (procs ?s1)(n_procs ?s1 := \<lparr>status = Alive, signals = []\<rparr>),
                n_procs := n_procs ?s1 + 1,
                effects := effects ?s1 @ [Spawned (n_procs ?s1)],
                dev := (dev ?s1)\<lparr>server_process := Some (n_procs ?s1)\<rparr>\<rparr>))"
    by (simp add: start_server_stopped [OF none] env)
  have bad: "spawn_error s (popen_calls s) = Some m \<Longrightarrow>
      start_server ?s1 =
        (Returned, print (FailedToStart (OSError m)) (?s1\<lparr>popen_calls := popen_calls ?s1 + 1\<rparr>))"
    for m
    by (simp add: start_server_stopped [OF none] env)
  have old: "server_process (dev s) \<noteq> Some (n_procs s)" if "reachable s"
    using reachable_owned [OF that] unfolding owned_def
    by (cases "server_process (dev s)") auto
  show ?thesis
  proof (intro conjI impI allI)
    assume "spawn_error s (popen_calls s) = None"
    from ok [OF this] env(1) old show "\<exists>s'. restart_server s = (Returned, s')
         \<and> server_process (dev s') = Some (n_procs s)
         \<and> n_procs s' = n_procs s + 1
         \<and> status (procs s' (n_procs s)) = Alive
         \<and> signals (procs s' (n_procs s)) = []
         \<and> (\<forall>h < n_procs s. server_process (dev s') \<noteq> Some h)
         \<and> (reachable s \<longrightarrow> server_process (dev s') \<noteq> server_process (dev s))"
      by (auto simp: restart_server_eq print_def)
  next
    fix m assume "spawn_error s (popen_calls s) = Some m"
    from bad [OF this] env(1) none show "\<exists>s'. restart_server s = (Returned, s')
        \<and> server_process (dev s') = None \<and> n_procs s' = n_procs s"
      by (simp add: restart_server_eq print_def)
  qed
qed

text \<open>
  Witness for C2: a restart of a running server whose spawn succeeds, and one whose
  spawn fails.
\<close>

theorem restart_server_result_witness:
  "reachable (snd (start_server (boot (\<lambda>_. None) (\<lambda>_. True) (\<lambda>_. True))))
   \<and> server_process (dev (snd (start_server (boot (\<lambda>_. None) (\<lambda>_. True) (\<lambda>_. True))))) = Some 0
   \<and> (\<exists>s'. restart_server (snd (start_server (boot (\<lambda>_. None) (\<lambda>_. True) (\<lambda>_. True)))) = (Returned, s')
       \<and> server_process (dev s') = Some 1 \<and> n_procs s' = 2
       \<and> status (procs s' 1) = Alive
       \<and> server_process (dev s') \<noteq>
           server_process (dev (snd (start_server (boot (\<lambda>_. None) (\<lambda>_. True) (\<lambda>_. True))))))
   \<and> (\<exists>s'. restart_server (snd (start_server
          (boot (\<lambda>k. if k = 0 then None else Some ''No such file'') (\<lambda>_. True) (\<lambda>_. True))))
        = (Returned, s') \<and> server_process (dev s') = None \<and> n_procs s' = 1)"
proof -
  let ?b = "boot (\<lambda>_. None) (\<lambda>_. True) (\<lambda>_. True)"
  let ?c = "boot (\<lambda>k. if k = 0 then None else Some ''No such file'') (\<lambda>_. True) (\<lambda>_. True)"
  have "reachable ?b"
    by (rule reachable.initial) (simp_all add: boot_def DevServer_init_def)
  then have r: "reachable (snd (start_server ?b))"
    by (rule reachable.start)
  have b: "server_process (dev (snd (start_server ?b))) = Some 0"
    "n_procs (snd (start_server ?b)) = 1"
    "spawn_error (snd (start_server ?b)) (popen_calls (snd (start_server ?b))) = None"
    by (simp_all add: run_defs proc_defs Let_def)
  have c: "n_procs (snd (start_server ?c)) = 1"
    "spawn_error (snd (start_server ?c)) (popen_calls (snd (start_server ?c)))
       = Some ''No such file''"
    by (simp_all add: run_defs proc_defs Let_def)
  from r b c restart_server_result [of "snd (start_server ?b)"]
    restart_server_result [of "snd (start_server ?c)"]
  show ?thesis by auto
qed

text \<open>
  Counterexample to C2 as stated: the server runs (handle 0), the next spawn fails;
  \<open>restart_server\<close> returns and the supervisor is STOPPED, not RUNNING.
\<close>

theorem restart_spawn_failure_counterexample:
  "server_process (dev (snd (start_server
       (boot (\<lambda>k. if k = 0 then None else Some ''No such file'') (\<lambda>_. True) (\<lambda>_. True))))) = Some 0
   \<and> fst (restart_server (snd (start_server
       (boot (\<lambda>k. if k = 0 then None else Some ''No such file'') (\<lambda>_. True) (\<lambda>_. True))))) = Returned
   \<and> server_process (dev (snd (restart_server (snd (start_server
       (boot (\<lambda>k. if k = 0 then None else Some ''No such file'') (\<lambda>_. True) (\<lambda>_. True))))))) = None"
  by (simp add: run_defs proc_defs Let_def)

text \<open>
  C3, as amended. For a file event (not a directory) whose extension, in lower case,
  is in the allow-set, handled by a handler with the script's delay of 1 second: when
  more than 1 second has passed since the last accepted event, the callback is called
  exactly once (on the state after the console line) and the timestamp becomes the
  time of this event; when at most 1 second has passed, the event is dropped and
  neither the handler nor the state changes.
\<close>

theorem on_modified_debounce:
  assumes "\<not> is_directory ev"
    and "lower (suffix (src_path ev)) \<in> relevant_extensions"
    and "debounce_delay h = 1"
  shows "(1 < now - last_restart h \<longrightarrow>
           on_modified h ev now s =
             (h\<lparr>last_restart := now\<rparr>,
              restart_callback h (print (FileChanged (path_name (src_path ev))) s)))
       \<and> (now - last_restart h \<le> 1 \<longrightarrow> on_modified h ev now s = (h, Returned, s))"
  using assms by (simp add: on_modified_def Let_def split: prod.splits)

text \<open>
  Witness for C3: an event 1.5 seconds after the last accepted one is accepted, an
  event 0.2 seconds after it is dropped.
\<close>

theorem on_modified_debounce_witness:
  "on_modified ((ReloadHandler_init restart_server)\<lparr>last_restart := 1000\<rparr>)
     \<lparr>event_type = Modified, is_directory = False, src_path = ''src/index.html''\<rparr> (10015 / 10)
     (boot (\<lambda>_. None) (\<lambda>_. True) (\<lambda>_. True)) =
   ((ReloadHandler_init restart_server)\<lparr>last_restart := 10015 / 10\<rparr>,
    restart_server (print (FileChanged ''index.html'') (boot (\<lambda>_. None) (\<lambda>_. True) (\<lambda>_. True))))
   \<and> on_modified ((ReloadHandler_init restart_server)\<lparr>last_restart := 1000\<rparr>)
     \<lparr>event_type = Modified, is_directory = False, src_path = ''src/index.html''\<rparr> (10002 / 10)
     (boot (\<lambda>_. None) (\<lambda>_. True) (\<lambda>_. True)) =
   ((ReloadHandler_init restart_server)\<lparr>last_restart := 1000\<rparr>, Returned,
    boot (\<lambda>_. None) (\<lambda>_. True) (\<lambda>_. True))"
  using on_modified_debounce [of "\<lparr>event_type = Modified, is_directory = False, src_path = ''src/index.html''\<rparr>"
      "(ReloadHandler_init restart_server)\<lparr>last_restart := 1000\<rparr>" "10015 / 10"
      "boot (\<lambda>_. None) (\<lambda>_. True) (\<lambda>_. True)"]
    on_modified_debounce [of "\<lparr>event_type = Modified, is_directory = False, src_path = ''src/index.html''\<rparr>"
      "(ReloadHandler_init restart_server)\<lparr>last_restart := 1000\<rparr>" "10002 / 10"
      "boot (\<lambda>_. None) (\<lambda>_. True) (\<lambda>_. True)"]
  by (simp add: path_defs relevant_extensions_def ReloadHandler_init_def)

text \<open>
  Counterexample to C3 as stated: an event exactly 1 second after the last accepted
  one (at 1000, then 1001) is dropped, since the test is a strict comparison.
\<close>

theorem on_modified_boundary_counterexample:
  "(1001 :: real) - last_restart ((ReloadHandler_init restart_server)\<lparr>last_restart := 1000\<rparr>) \<ge> 1
   \<and> \<not> is_directory \<lparr>event_type = Modified, is_directory = False, src_path = ''src/index.html''\<rparr>
   \<and> lower (suffix (src_path \<lparr>event_type = Modified, is_directory = False, src_path = ''src/index.html''\<rparr>))
       = ''.html''
   \<and> on_modified ((ReloadHandler_init restart_server)\<lparr>last_restart := 1000\<rparr>)
        \<lparr>event_type = Modified, is_directory = False, src_path = ''src/index.html''\<rparr> 1001
        (boot (\<lambda>_. None) (\<lambda>_. True) (\<lambda>_. True)) =
      ((ReloadHandler_init restart_server)\<lparr>last_restart := 1000\<rparr>, Returned,
       boot (\<lambda>_. None) (\<lambda>_. True) (\<lambda>_. True))"
  by (simp add: on_modified_def path_defs relevant_extensions_def ReloadHandler_init_def)

text \<open>
  C4. When the spawn fails, \<open>start_server\<close> returns normally, the handle is empty, the
  failure is the last line on the console, no child was created, and the supervisor
  stays usable: \<open>stop_server\<close>, \<open>start_server\<close> and \<open>restart_server\<close> all return from
  the resulting state, and a later \<open>start_server\<close> whose spawn succeeds leaves a running
  child.
\<close>

theorem start_server_spawn_failure:
  assumes "spawn_error s (popen_calls s) = Some m"
  shows "\<exists>s'. start_server s = (Returned, s')
           \<and> server_process (dev s') = None
           \<and> last (effects s') = Print (FailedToStart (OSError m))
           \<and> n_procs s' = n_procs s
           \<and> fst (stop_server s') = Returned
           \<and> fst (start_server s') = Returned
           \<and> fst (restart_server s') = Returned
           \<and> (spawn_error s' (popen_calls s') = None \<longrightarrow>
                server_process (dev (snd (start_server s'))) = Some (n_procs s')
                \<and> status (procs (snd (start_server s')) (n_procs s')) = Alive)"
proof -
  let ?s1 = "snd (stop_server s)"
  let ?s' = "print (FailedToStart (OSError m)) (?s1\<lparr>popen_calls := popen_calls ?s1 + 1\<rparr>)"
  have eq: "start_server s = (Returned, ?s')"
    using assms
    by (subst start_server_stop) (simp add: start_server_stopped stop_server_clears stop_server_env)
  have none: "server_process (dev ?s') = None"
    by (simp add: print_def stop_server_clears)
  have "server_process (dev (snd (start_server ?s'))) = Some (n_procs ?s')
        \<and> status (procs (snd (start_server ?s')) (n_procs ?s')) = Alive"
    if "spawn_error ?s' (popen_calls ?s') = None"
    using that none by (simp add: start_server_stopped) (simp add: print_def)
  with eq none show ?thesis
    by (simp add: stop_server_returns start_server_returns restart_server_returns)
       (simp add: print_def stop_server_env)
qed

text \<open>
  Witness for C4: the first spawn fails, the second succeeds.
\<close>

theorem start_server_spawn_failure_witness:
  "\<exists>s'. start_server (boot (\<lambda>k. if k = 0 then Some ''No such file'' else None) (\<lambda>_. True) (\<lambda>_. True))
         = (Returned, s')
       \<and> server_process (dev s') = None
       \<and> effects s' = [Print (FailedToStart (OSError ''No such file''))]
       \<and> server_process (dev (snd (start_server s'))) = Some 0"
  using start_server_spawn_failure [of
      "boot (\<lambda>k. if k = 0 then Some ''No such file'' else None) (\<lambda>_. True) (\<lambda>_. True)"
      "''No such file''"]
  by (simp add: run_defs proc_defs Let_def)

text \<open>
  C5, as amended. In every reachable state every child other than the one
  \<open>server_process\<close> refers to is stopped (it has exited or has been sent SIGKILL), so
  at most one child is not. \<open>start_server\<close> spawns in the state \<open>stop_server\<close> leaves,
  and \<open>restart_server\<close> in the state \<open>stop_server\<close> and the pause leave; after each of
  the three calls every child that existed before is stopped. Within the effects of each
  call a child is created only after the child held before was seen to exit by \<open>wait\<close>
  or was sent SIGKILL. The script does not wait for the exit of a child it has sent
  SIGKILL.
\<close>

theorem single_server_process:
  assumes "reachable s"
  shows "(\<forall>h < n_procs s. server_process (dev s) \<noteq> Some h \<longrightarrow> stopped (procs s h))
       \<and> card {h. h < n_procs s \<and> \<not> stopped (procs s h)} \<le> 1
       \<and> start_server s = start_server (snd (stop_server s))
       \<and> restart_server s = start_server (sleep (1 / 2) (snd (stop_server (print Restarting s))))
       \<and> (\<forall>h < n_procs s. stopped (procs (snd (stop_server s)) h)
                         \<and> stopped (procs (snd (start_server s)) h)
                         \<and> stopped (procs (snd (restart_server s)) h))
       \<and> (\<exists>es. effects (snd (stop_server s)) = effects s @ es
             \<and> monitor (server_process (dev s)) es = Some None)
       \<and> (\<exists>es. effects (snd (start_server s)) = effects s @ es
             \<and> monitor (server_process (dev s)) es
                 = Some (server_process (dev (snd (start_server s)))))
       \<and> (\<exists>es. effects (snd (restart_server s)) = effects s @ es
             \<and> monitor (server_process (dev s)) es
                 = Some (server_process (dev (snd (restart_server s)))))"
proof -
  have ow: "owned s" using assms by (rule reachable_owned)
  then have one: "\<forall>h < n_procs s. server_process (dev s) \<noteq> Some h \<longrightarrow> stopped (procs s h)"
    by (simp add: owned_def)
  have "{h. h < n_procs s \<and> \<not> stopped (procs s h)} \<subseteq> set_option (server_process (dev s))"
    using one by auto
  then have "card {h. h < n_procs s \<and> \<not> stopped (procs s h)}
               \<le> card (set_option (server_process (dev s)))"
    by (intro card_mono) simp_all
  also have "\<dots> \<le> 1" by (cases "server_process (dev s)") simp_all
  finally have c: "card {h. h < n_procs s \<and> \<not> stopped (procs s h)} \<le> 1" .
  have after: "\<forall>h < n_procs s. stopped (procs (snd (stop_server s)) h)
                         \<and> stopped (procs (snd (start_server s)) h)
                         \<and> stopped (procs (snd (restart_server s)) h)"
    using ow by (simp add: stopped_after_stop stopped_after_start stopped_after_restart)
  from one c after start_server_stop [of s] restart_server_eq [of s]
    monitor_stop [of s] monitor_start [of s] monitor_restart [of s]
  show ?thesis by (intro conjI)
qed

text \<open>
  Witness for C5: a start and a restart with children that ignore the termination
  signal; the restart's effects are in the order the monitor accepts.
\<close>

theorem single_server_process_witness:
  "reachable (snd (start_server (boot (\<lambda>_. None) (\<lambda>_. False) (\<lambda>_. True))))
   \<and> server_process (dev (snd (start_server (boot (\<lambda>_. None) (\<lambda>_. False) (\<lambda>_. True))))) = Some 0
   \<and> effects (snd (restart_server (snd (start_server (boot (\<lambda>_. None) (\<lambda>_. False) (\<lambda>_. True))))))
       = effects (snd (start_server (boot (\<lambda>_. None) (\<lambda>_. False) (\<lambda>_. True))))
         @ [Print Restarting, Signalled 0 SIGTERM, Waited 0 False, Signalled 0 SIGKILL,
            Print ServerStopped, Sleep (1 / 2), Spawned 1, Print (ServerStarted 8080)]
   \<and> monitor (Some 0)
        [Print Restarting, Signalled 0 SIGTERM, Waited 0 False, Signalled 0 SIGKILL,
         Print ServerStopped, Sleep (1 / 2), Spawned 1, Print (ServerStarted 8080)] = Some (Some 1)
   \<and> stopped (procs (snd (restart_server (snd (start_server
        (boot (\<lambda>_. None) (\<lambda>_. False) (\<lambda>_. True)))))) 0)
   \<and> card {h. h < n_procs (snd (start_server (boot (\<lambda>_. None) (\<lambda>_. False) (\<lambda>_. True))))
             \<and> \<not> stopped (procs (snd (start_server
                 (boot (\<lambda>_. None) (\<lambda>_. False) (\<lambda>_. True)))) h)} \<le> 1"
proof -
  let ?b = "boot (\<lambda>_. None) (\<lambda>_. False) (\<lambda>_. True)"
  have "reachable ?b"
    by (rule reachable.initial) (simp_all add: boot_def DevServer_init_def)
  then have r: "reachable (snd (start_server ?b))"
    by (rule reachable.start)
  have n: "n_procs (snd (start_server ?b)) = 1"
    "server_process (dev (snd (start_server ?b))) = Some 0"
    by (simp_all add: run_defs proc_defs Let_def)
  have e: "effects (snd (restart_server (snd (start_server ?b))))
       = effects (snd (start_server ?b))
         @ [Print Restarting, Signalled 0 SIGTERM, Waited 0 False, Signalled 0 SIGKILL,
            Print ServerStopped, Sleep (1 / 2), Spawned 1, Print (ServerStarted 8080)]"
    by (simp add: run_defs proc_defs Let_def)
  have m: "monitor (Some 0)
        [Print Restarting, Signalled 0 SIGTERM, Waited 0 False, Signalled 0 SIGKILL,
         Print ServerStopped, Sleep (1 / 2), Spawned 1, Print (ServerStarted 8080)] = Some (Some 1)"
    by (simp add: monitor_def)
  note t = single_server_process [OF r]
  from t have c: "card {h. h < n_procs (snd (start_server ?b))
             \<and> \<not> stopped (procs (snd (start_server ?b)) h)} \<le> 1"
    by (elim conjE)
  from t have "\<forall>h < n_procs (snd (start_server ?b)).
      stopped (procs (snd (stop_server (snd (start_server ?b)))) h)
      \<and> stopped (procs (snd (start_server (snd (start_server ?b)))) h)
      \<and> stopped (procs (snd (restart_server (snd (start_server ?b)))) h)"
    by (elim conjE)
  with n(1) have st: "stopped (procs (snd (restart_server (snd (start_server ?b)))) 0)"
    by simp
  from r n(2) e m st c show ?thesis by (intro conjI)
qed

text \<open>
  Counterexample to C5 as stated: the first child ignores the termination signal and is
  sent SIGKILL after the timeout. It is still alive in the state in which
  \<open>restart_server\<close> creates the second child, and after the restart two children are
  alive.
\<close>

theorem killed_child_still_alive_counterexample:
  "procs (sleep (1 / 2) (snd (stop_server (print Restarting
       (snd (start_server (boot (\<lambda>_. None) (\<lambda>_. False) (\<lambda>_. True)))))))) 0
     = \<lparr>status = Alive, signals = [SIGTERM, SIGKILL]\<rparr>
   \<and> n_procs (snd (restart_server (snd (start_server
       (boot (\<lambda>_. None) (\<lambda>_. False) (\<lambda>_. True)))))) = 2
   \<and> procs (snd (restart_server (snd (start_server
       (boot (\<lambda>_. None) (\<lambda>_. False) (\<lambda>_. True)))))) 0
     = \<lparr>status = Alive, signals = [SIGTERM, SIGKILL]\<rparr>
   \<and> procs (snd (restart_server (snd (start_server
       (boot (\<lambda>_. None) (\<lambda>_. False) (\<lambda>_. True)))))) 1
     = \<lparr>status = Alive, signals = []\<rparr>"
  by (simp add: run_defs proc_defs Let_def)

text \<open>
  C6. When a handle exists, \<open>stop_server\<close> returns normally with the handle cleared
  and the child stopped. A running child that does not exit within the timeout of
  \<open>wait\<close> has been sent the termination signal and, after the wait timed out, the kill
  signal; one that exits in time has been sent the termination signal only and is dead.
\<close>

theorem stop_server_timeout:
  assumes "server_process (dev s) = Some h"
  shows "\<exists>s'. stop_server s = (Returned, s')
           \<and> server_process (dev s') = None
           \<and> stopped (procs s' h)
           \<and> (status (procs s h) = Dead \<or> exits_in_time s h \<longrightarrow> status (procs s' h) = Dead)
           \<and> (status (procs s h) = Alive \<and> \<not> exits_in_time s h \<longrightarrow>
                signals (procs s' h) = signals (procs s h) @ [SIGTERM, SIGKILL]
                \<and> effects s' = effects s @
                    [Signalled h SIGTERM, Waited h False, Signalled h SIGKILL,
                     Print ServerStopped])
           \<and> (status (procs s h) = Alive \<and> exits_in_time s h \<longrightarrow>
                signals (procs s' h) = signals (procs s h) @ [SIGTERM])"
proof -
  obtain r s' where st: "stop_server s = (r, s')" by (cases "stop_server s")
  with stop_server_returns [of s] stop_server_clears [of s]
  have "r = Returned" "server_process (dev s') = None" by simp_all
  moreover from st stop_server_stopped [OF assms] have "stopped (procs s' h)" by simp
  moreover from st stop_server_held [OF assms]
  have "procs s' h =
     (if status (procs s h) = Dead then procs s h
      else if exits_in_time s h
      then \<lparr>status = Dead, signals = signals (procs s h) @ [SIGTERM]\<rparr>
      else \<lparr>status = Alive, signals = signals (procs s h) @ [SIGTERM, SIGKILL]\<rparr>)"
    and "effects s' = effects s @
     (if status (procs s h) = Dead then [Waited h True, Print ServerStopped]
      else if exits_in_time s h
      then [Signalled h SIGTERM, Waited h True, Print ServerStopped]
      else [Signalled h SIGTERM, Waited h False, Signalled h SIGKILL, Print ServerStopped])"
    by simp_all
  ultimately show ?thesis using st by auto
qed

text \<open>
  Witness for C6: a child that ignores the termination signal.
\<close>

theorem stop_server_timeout_witness:
  "\<exists>s'. stop_server (snd (start_server (boot (\<lambda>_. None) (\<lambda>_. False) (\<lambda>_. True)))) = (Returned, s')
       \<and> server_process (dev s') = None
       \<and> procs s' 0 = \<lparr>status = Alive, signals = [SIGTERM, SIGKILL]\<rparr>"
  using stop_server_timeout [of "snd (start_server (boot (\<lambda>_. None) (\<lambda>_. False) (\<lambda>_. True)))" 0]
  by (simp add: run_defs proc_defs Let_def)

text \<open>
  C7. Without a handle, \<open>stop_server\<close> returns normally and changes nothing.
\<close>

theorem stop_server_without_process:
  assumes "server_process (dev s) = None"
  shows "stop_server s = (Returned, s)"
  using assms by (simp add: stop_server_def)

text \<open>
  Witness for C7: the state in which the script starts.
\<close>

theorem stop_server_without_process_witness:
  "stop_server (boot (\<lambda>_. None) (\<lambda>_. True) (\<lambda>_. True)) =
     (Returned, boot (\<lambda>_. None) (\<lambda>_. True) (\<lambda>_. True))"
  using stop_server_without_process [of "boot (\<lambda>_. None) (\<lambda>_. True) (\<lambda>_. True)"]
  by (simp add: boot_def DevServer_init_def)

text \<open>
  C8. An event for a directory, or for a file whose extension (in lower case) is not
  in the allow-set, changes neither the handler (its timestamp included) nor the state,
  whatever the time; the callback is not called.
\<close>

theorem irrelevant_event_ignored:
  assumes "is_directory ev \<or> lower (suffix (src_path ev)) \<notin> relevant_extensions"
  shows "on_modified h ev now s = (h, Returned, s) \<and> dispatch h ev now s = (h, Returned, s)"
  using assms by (auto simp: on_modified_def dispatch_def split: event_type.splits)

text \<open>
  Witness for C8: a \<open>.png\<close> file, and a directory whose name ends in \<open>.js\<close>.
\<close>

theorem irrelevant_event_ignored_witness:
  "on_modified (ReloadHandler_init restart_server)
     \<lparr>event_type = Modified, is_directory = False, src_path = ''public/logo.png''\<rparr> 5000
     (boot (\<lambda>_. None) (\<lambda>_. True) (\<lambda>_. True)) =
   (ReloadHandler_init restart_server, Returned, boot (\<lambda>_. None) (\<lambda>_. True) (\<lambda>_. True))
   \<and> dispatch (ReloadHandler_init restart_server)
     \<lparr>event_type = Modified, is_directory = True, src_path = ''src/app.js''\<rparr> 5000
     (boot (\<lambda>_. None) (\<lambda>_. True) (\<lambda>_. True)) =
   (ReloadHandler_init restart_server, Returned, boot (\<lambda>_. None) (\<lambda>_. True) (\<lambda>_. True))"
  using irrelevant_event_ignored [of
      "\<lparr>event_type = Modified, is_directory = False, src_path = ''public/logo.png''\<rparr>"
      "ReloadHandler_init restart_server" 5000 "boot (\<lambda>_. None) (\<lambda>_. True) (\<lambda>_. True)"]
    irrelevant_event_ignored [of
      "\<lparr>event_type = Modified, is_directory = True, src_path = ''src/app.js''\<rparr>"
      "ReloadHandler_init restart_server" 5000 "boot (\<lambda>_. None) (\<lambda>_. True) (\<lambda>_. True)"]
  by (simp add: path_defs relevant_extensions_def)

text \<open>
  C9. Extension matching ignores case: an event whose extension is a case variant of
  an allow-set member, and the event with the lower-case extension, are both handled
  by the same debounced restart; the results differ in the file name printed only.
\<close>

theorem extension_match_ignores_case:
  assumes "\<not> is_directory ev" and "\<not> is_directory ev'"
    and "suffix (src_path ev') = lower (suffix (src_path ev))"
    and "suffix (src_path ev') \<in> relevant_extensions"
  shows "on_modified h ev now s =
           (if debounce_delay h < now - last_restart h
            then (h\<lparr>last_restart := now\<rparr>,
                  restart_callback h (print (FileChanged (path_name (src_path ev))) s))
            else (h, Returned, s))
       \<and> on_modified h ev' now s =
           (if debounce_delay h < now - last_restart h
            then (h\<lparr>last_restart := now\<rparr>,
                  restart_callback h (print (FileChanged (path_name (src_path ev'))) s))
            else (h, Returned, s))"
proof -
  from assms(4) have "lower (suffix (src_path ev')) = suffix (src_path ev')"
    by (rule lower_relevant)
  with assms show ?thesis
    by (simp add: on_modified_def Let_def split: prod.splits)
qed

text \<open>
  Witness for C9: \<open>Index.HTML\<close> and \<open>index.html\<close>.
\<close>

theorem extension_match_ignores_case_witness:
  "on_modified (ReloadHandler_init restart_server)
     \<lparr>event_type = Modified, is_directory = False, src_path = ''src/Index.HTML''\<rparr> 5000
     (boot (\<lambda>_. None) (\<lambda>_. True) (\<lambda>_. True)) =
   ((ReloadHandler_init restart_server)\<lparr>last_restart := 5000\<rparr>,
    restart_server (print (FileChanged ''Index.HTML'') (boot (\<lambda>_. None) (\<lambda>_. True) (\<lambda>_. True))))
   \<and> on_modified (ReloadHandler_init restart_server)
     \<lparr>event_type = Modified, is_directory = False, src_path = ''src/index.html''\<rparr> 5000
     (boot (\<lambda>_. None) (\<lambda>_. True) (\<lambda>_. True)) =
   ((ReloadHandler_init restart_server)\<lparr>last_restart := 5000\<rparr>,
    restart_server (print (FileChanged ''index.html'') (boot (\<lambda>_. None) (\<lambda>_. True) (\<lambda>_. True))))"
  using extension_match_ignores_case [of
      "\<lparr>event_type = Modified, is_directory = False, src_path = ''src/Index.HTML''\<rparr>"
      "\<lparr>event_type = Modified, is_directory = False, src_path = ''src/index.html''\<rparr>"
      "ReloadHandler_init restart_server" 5000 "boot (\<lambda>_. None) (\<lambda>_. True) (\<lambda>_. True)"]
  by (simp add: path_defs relevant_extensions_def ReloadHandler_init_def)

text \<open>
  C10. An event of any kind other than a modification changes neither the handler
  nor the state when it is dispatched to the handler.
\<close>

theorem other_event_kinds_ignored:
  assumes "event_type ev \<noteq> Modified"
  shows "dispatch h ev now s = (h, Returned, s)"
  using assms by (cases "event_type ev") (simp_all add: dispatch_def)

text \<open>
  Witness for C10: a creation and a deletion of \<open>src/index.html\<close>.
\<close>

theorem other_event_kinds_ignored_witness:
  "dispatch (ReloadHandler_init restart_server)
     \<lparr>event_type = Created, is_directory = False, src_path = ''src/index.html''\<rparr> 5000
     (boot (\<lambda>_. None) (\<lambda>_. True) (\<lambda>_. True)) =
   (ReloadHandler_init restart_server, Returned, boot (\<lambda>_. None) (\<lambda>_. True) (\<lambda>_. True))
   \<and> dispatch (ReloadHandler_init restart_server)
     \<lparr>event_type = Deleted, is_directory = False, src_path = ''src/index.html''\<rparr> 5000
     (boot (\<lambda>_. None) (\<lambda>_. True) (\<lambda>_. True)) =
   (ReloadHandler_init restart_server, Returned, boot (\<lambda>_. None) (\<lambda>_. True) (\<lambda>_. True))"
  using other_event_kinds_ignored [of
      "\<lparr>event_type = Created, is_directory = False, src_path = ''src/index.html''\<rparr>"
      "ReloadHandler_init restart_server" 5000 "boot (\<lambda>_. None) (\<lambda>_. True) (\<lambda>_. True)"]
    other_event_kinds_ignored [of
      "\<lparr>event_type = Deleted, is_directory = False, src_path = ''src/index.html''\<rparr>"
      "ReloadHandler_init restart_server" 5000 "boot (\<lambda>_. None) (\<lambda>_. True) (\<lambda>_. True)"]
  by simp

end
